theory Spec2Isabelle
  imports Complex_Main
begin

section \<open>JavaScript values\<close>

text \<open>
  The charts of \<^verbatim>\<open>src/js/thing.js\<close> are drawn with d3 (version 3) into the page.
  JavaScript numbers are modelled as exact reals, with \<open>NaN\<close> apart; an array read
  \<^verbatim>\<open>xs[i]\<close> gives \<open>None\<close> (\<^verbatim>\<open>undefined\<close>) out of range; a thrown exception is a
  value of type \<open>error\<close>, returned with the page as it stands at the throw.
\<close>

datatype error = TypeError string
  \<comment> \<open>\<^verbatim>\<open>TypeError: Cannot read property p of undefined/null\<close>, with the property \<open>p\<close>\<close>

datatype num = NaN | Num real

definition index :: "'a list \<Rightarrow> int \<Rightarrow> 'a option" where
  "index xs i = (if 0 \<le> i \<and> i < int (length xs) then Some (xs ! nat i) else None)"

subsection \<open>Dates\<close>

text \<open>
  A \<^verbatim>\<open>Date\<close> at local midnight is its day number in the local calendar, counted from
  1970-01-01; the time of day and the time zone are left out, so a time scale is linear
  in days. \<^verbatim>\<open>new Date(year, month, date)\<close> follows ECMAScript's MakeDay: the month is
  counted from 0 and a month outside 0..11 carries into the year.
\<close>

type_synonym date = int

definition DaysInYear :: "int \<Rightarrow> int" where
  "DaysInYear y =
     (if y mod 4 \<noteq> 0 then 365
      else if y mod 100 \<noteq> 0 then 366
      else if y mod 400 \<noteq> 0 then 365
      else 366)"

definition InLeapYear :: "int \<Rightarrow> bool" where
  "InLeapYear y = (DaysInYear y = 366)"

definition DayFromYear :: "int \<Rightarrow> int" where
  "DayFromYear y =
     365 * (y - 1970) + (y - 1969) div 4 - (y - 1901) div 100 + (y - 1601) div 400"

definition DaysBeforeMonth :: "bool \<Rightarrow> int \<Rightarrow> int" where
  "DaysBeforeMonth leap m =
     [0, 31, 59, 90, 120, 151, 181, 212, 243, 273, 304, 334, 365] ! nat m
       + (if leap \<and> 2 \<le> m then 1 else 0)"

definition MakeDay :: "int \<Rightarrow> int \<Rightarrow> int \<Rightarrow> int" where
  "MakeDay year month dt =
     (let ym = year + month div 12;
          mn = month mod 12
      in DayFromYear ym + DaysBeforeMonth (InLeapYear ym) mn + dt - 1)"

definition Date :: "int \<Rightarrow> int \<Rightarrow> int \<Rightarrow> date" where
  "Date year month dt =
     MakeDay (if 0 \<le> year \<and> year \<le> 99 then 1900 + year else year) month dt"

text \<open>
  \<open>reads_as t y m d\<close>: on the date \<open>t\<close>, \<^verbatim>\<open>getFullYear()\<close> is \<open>y\<close>, \<^verbatim>\<open>getMonth()\<close>
  is \<open>m\<close> (0 is January) and \<^verbatim>\<open>getDate()\<close> is \<open>d\<close> (ECMAScript's YearFromTime,
  MonthFromTime and DateFromTime).
\<close>

definition reads_as :: "date \<Rightarrow> int \<Rightarrow> int \<Rightarrow> int \<Rightarrow> bool" where
  "reads_as t y m d =
     (DayFromYear y \<le> t \<and> t < DayFromYear (y + 1) \<and> 0 \<le> m \<and> m < 12 \<and>
      DaysBeforeMonth (InLeapYear y) m \<le> t - DayFromYear y \<and>
      t - DayFromYear y < DaysBeforeMonth (InLeapYear y) (m + 1) \<and>
      d = t - DayFromYear y - DaysBeforeMonth (InLeapYear y) m + 1)"

section \<open>Globals\<close>

definition DEFAULT_WIDTH :: real where "DEFAULT_WIDTH = 940"
definition MOBILE_BREAKPOINT :: real where "MOBILE_BREAKPOINT = 600"
definition MIN_DATE :: date where "MIN_DATE = Date 2000 1 1"
definition MAX_DATE :: date where "MAX_DATE = Date 2021 1 1"

definition TICK_VALUES :: "date list" where
  "TICK_VALUES =
     [MIN_DATE, Date 2004 1 1, Date 2008 1 1, Date 2012 1 1, Date 2016 1 1, Date 2020 1 1]"

definition DISPLAY_ORDER :: "string list" where
  "DISPLAY_ORDER =
     [''gdp'', ''unemployment'', ''labor'', ''poverty'', ''trade'', ''stocks'', ''wages'',
      ''budget'', ''debt'']"

record pres_term =
  president :: string
  term_start :: date
  term_end :: date

definition TERMS :: "pres_term list" where
  "TERMS =
     [\<lparr>president = ''Clinton'', term_start = Date 2000 1 1, term_end = Date 2000 12 31\<rparr>,
      \<lparr>president = ''Bush'', term_start = Date 2001 1 1, term_end = Date 2008 12 31\<rparr>,
      \<lparr>president = ''Obama'', term_start = Date 2009 1 1, term_end = Date 2016 12 31\<rparr>,
      \<lparr>president = ''Trump'', term_start = Date 2017 1 1, term_end = Date 2020 12 31\<rparr>]"

section \<open>Data model\<close>

text \<open>
  One entry of \<^verbatim>\<open>data/metrics.json\<close> after \<^verbatim>\<open>formatData\<close>. The fields are the JSON's own;
  \<open>points\<close> is the field \<^verbatim>\<open>data\<close>, \<open>min_val\<close> and \<open>max_val\<close> are \<^verbatim>\<open>min\<close> and \<^verbatim>\<open>max\<close>,
  \<open>pdate\<close> and \<open>pvalue\<close> are a point's \<^verbatim>\<open>date\<close> and \<^verbatim>\<open>value\<close>. \<open>ticks = None\<close> is an entry
  with no \<^verbatim>\<open>ticks\<close> field (the code tests for it); an array, even an empty one, is
  truthy.
\<close>

record point =
  period :: string
  pdate :: date
  pvalue :: real

record metric =
  metric :: string
  description :: string
  url :: string
  source :: string
  last_updated :: string
  frequency :: string
  points :: "point list"
  min_val :: real
  max_val :: real
  ticks :: "real list option"
  show_plus :: bool
  label :: string

text \<open>
  \<^verbatim>\<open>graphicData\<close>: the keys with their entries, in the order in which \<^verbatim>\<open>_.forIn\<close>
  enumerates them; \<^verbatim>\<open>graphicData[key]\<close> is \<open>map_of\<close>.
\<close>

type_synonym dataset = "(string \<times> metric) list"

record config =
  container :: string
  width :: real
  data :: "metric option"

section \<open>Scales and axes of d3\<close>

text \<open>
  A scale with two-point domain and range (d3's bilinear scale with the number
  interpolators): \<^verbatim>\<open>uninterpolateNumber(a, b)\<close> divides by \<^verbatim>\<open>b - a\<close>, or by
  \<^verbatim>\<open>1 / 0\<close> when that is 0, and \<^verbatim>\<open>interpolateNumber\<close> is \<^verbatim>\<open>a * (1 - t) + b * t\<close>.
  Nothing clamps.
\<close>

definition d3_bilinear :: "real \<times> real \<Rightarrow> real \<times> real \<Rightarrow> real \<Rightarrow> real" where
  "d3_bilinear dm rg x =
     (let t = (if snd dm - fst dm = 0 then 0 else (x - fst dm) / (snd dm - fst dm))
      in fst rg * (1 - t) + snd rg * t)"

record time_scale =
  t_range :: "real \<times> real"
  t_domain :: "date \<times> date"

record linear_scale =
  l_range :: "real \<times> real"
  l_domain :: "real \<times> real"

definition time_at :: "time_scale \<Rightarrow> date \<Rightarrow> real" where
  "time_at s d =
     d3_bilinear (real_of_int (fst (t_domain s)), real_of_int (snd (t_domain s)))
       (t_range s) (real_of_int d)"

definition linear_at :: "linear_scale \<Rightarrow> real \<Rightarrow> real" where
  "linear_at s x = d3_bilinear (l_domain s) (l_range s) x"

definition linear_at_entry :: "linear_scale \<Rightarrow> real option \<Rightarrow> num" where
  \<comment> \<open>the scale at an array read: \<^verbatim>\<open>undefined\<close> goes to \<^verbatim>\<open>NaN\<close>\<close>
  "linear_at_entry s v = (case v of None \<Rightarrow> NaN | Some x \<Rightarrow> Num (linear_at s x))"

text \<open>
  The tick formats the code gives an axis, as data: the scale's own (no format set),
  \<^verbatim>\<open>d.getFullYear()\<close>, the sign format of the vertical axis with the metric's
  \<^verbatim>\<open>show_plus\<close>, and a constant string.
\<close>

datatype tick_format = ScaleDefault | FullYear | SignFormat bool | Constant string

record ('s, 't) axis =
  scale :: 's
  orient :: string
  tickValues :: "'t list option"
  tickFormat :: tick_format
  tickSize :: "real \<times> real"

definition d3_svg_axis :: "'s \<Rightarrow> ('s, 't) axis" where
  \<comment> \<open>\<^verbatim>\<open>d3.svg.axis().scale(s)\<close>: a new axis has d3's defaults\<close>
  "d3_svg_axis s =
     \<lparr>scale = s, orient = ''bottom'', tickValues = None, tickFormat = ScaleDefault,
      tickSize = (6, 6)\<rparr>"

text \<open>
  What the sign format returns for a tick, and the text d3 sets from it
  (\<^verbatim>\<open>selection.text\<close>: the empty string for \<^verbatim>\<open>undefined\<close>, else the value as a string).
  \<open>str\<close> is JavaScript's number-to-string conversion.
\<close>

datatype jsval = JUndefined | JNum real | JStr string

definition signTickFormat :: "(real \<Rightarrow> string) \<Rightarrow> bool \<Rightarrow> real option \<Rightarrow> jsval" where
  "signTickFormat str sp d =
     (case d of
        Some x \<Rightarrow>
          if x \<le> 0 then JNum x
          else if sp then JStr (''+'' @ str x)
          else JNum x
      | None \<Rightarrow>
          if sp then JStr (''+'' @ ''undefined'')
          else JUndefined)"

definition text_of :: "(real \<Rightarrow> string) \<Rightarrow> jsval \<Rightarrow> string" where
  "text_of str v = (case v of JUndefined \<Rightarrow> [] | JNum x \<Rightarrow> str x | JStr s \<Rightarrow> s)"

text \<open>
  Number-to-string on the integers below \<open>10 ^ 21\<close> in size, where it is the decimal
  numeral with a leading minus sign; the examples of tick labels are integers.
\<close>

fun digits :: "nat \<Rightarrow> string" where
  "digits n =
     (if n < 10 then [''0123456789'' ! n]
      else digits (n div 10) @ [''0123456789'' ! (n mod 10)])"

definition integerToString :: "real \<Rightarrow> string" where
  "integerToString x =
     (if x < 0 then ''-'' @ digits (nat (- \<lfloor>x\<rfloor>)) else digits (nat \<lfloor>x\<rfloor>))"

section \<open>The page\<close>

text \<open>
  An attribute value as the code passes it to \<^verbatim>\<open>attr\<close>. What helpers outside this file
  compute stays symbolic: \<^verbatim>\<open>'president ' + utils.classify(name)\<close>,
  \<^verbatim>\<open>utils.makeTranslate(x, y)\<close>, the path of \<^verbatim>\<open>d3.svg.line().interpolate('monotone')\<close>
  through the scaled points, and \<^verbatim>\<open>getComputedTextLength() + pad\<close> of a text, the
  measured length being taken as a function of the text.
\<close>

datatype attr =
    S string
  | N num
  | PresidentClass string
  | MakeTranslate real real
  | MonotoneLine "(real \<times> real) list"
  | TextLengthPlus string real

text \<open>
  An element with its attributes and children, a text, or what d3 draws for an axis
  when the axis is called on a group.
\<close>

datatype node =
    Elem string "(string \<times> attr) list" "node list"
  | Text string
  | XAxisDrawn "(time_scale, date) axis"
  | YAxisDrawn "(linear_scale, real option) axis"

text \<open>
  The wrapper \<^verbatim>\<open>makeHTML\<close> creates for a key: the text of its \<^verbatim>\<open>h2\<close>, the content of its
  \<^verbatim>\<open>p\<close> and of its source line. The children of its \<^verbatim>\<open>div.chart\<close> are kept by wrapper id
  in \<open>charts\<close>. \<open>wrappers\<close> lists the wrappers under \<^verbatim>\<open>#charts\<close> in document order;
  \<open>resized\<close> counts the calls of \<^verbatim>\<open>fm.resize()\<close>. The rest of the host page is not in the
  sources.
\<close>

record wrapper =
  heading :: string
  description_html :: string
  source_line :: string

record state =
  wrappers :: "(string \<times> wrapper) list"
  charts :: "string \<Rightarrow> node list"
  isMobile :: bool
  resized :: nat

definition selector :: "string \<Rightarrow> string" where
  "selector key = ''#'' @ key @ '' .chart''"

text \<open>
  \<^verbatim>\<open>d3.select('#' + key + ' .chart')\<close>, for a key that is the id of a wrapper: the chart of
  that wrapper. Only this much of the CSS query is modelled. For any other string the
  model selects nothing, which is what the page does when the key is an identifier and no
  element around the wrappers has it as its id. It is not what the page does for
  \<^verbatim>\<open>charts\<close>, the id of the element the wrappers are appended to, whose selector reaches
  the first wrapper's chart, nor for a string that makes another selector or none. The
  statements below that depend on the difference keep to the keys where model and page
  agree: the ids of the wrappers, and the keys that \<open>ordinary_key\<close> admits.
\<close>

definition d3_select :: "string \<Rightarrow> state \<Rightarrow> string option" where
  \<comment> \<open>the id of the first wrapper whose chart the selector matches; \<open>None\<close> is the
      selection of no element\<close>
  "d3_select sel st = find (\<lambda>k. selector k = sel) (map fst (wrappers st))"




definition set_html :: "string option \<Rightarrow> node list \<Rightarrow> state \<Rightarrow> state" where
  \<comment> \<open>\<^verbatim>\<open>selection.html\<close>: the selected chart's children replaced; nothing happens on the
      empty selection\<close>
  "set_html sel ns st =
     (case sel of None \<Rightarrow> st | Some k \<Rightarrow> st\<lparr>charts := (charts st)(k := ns)\<rparr>)"

definition append_html :: "string option \<Rightarrow> node list \<Rightarrow> state \<Rightarrow> state" where
  \<comment> \<open>\<^verbatim>\<open>selection.append\<close>, with the subtree as it stands when the call ends or throws:
      the nodes come after the children the selected chart has\<close>
  "append_html sel ns st =
     (case sel of None \<Rightarrow> st | Some k \<Rightarrow> st\<lparr>charts := (charts st)(k := charts st k @ ns)\<rparr>)"

section \<open>Creating the wrappers\<close>

text \<open>
  \<^verbatim>\<open>makeHTML\<close>: one wrapper per key of \<open>DISPLAY_ORDER\<close>, with an empty chart. Reading a
  field of \<^verbatim>\<open>graphicData[key]\<close> throws when the key is missing, and \<^verbatim>\<open>init\<close> stops
  there, before any render.
\<close>

fun makeHTML_loop :: "string list \<Rightarrow> dataset \<Rightarrow> state \<Rightarrow> error + state" where
  "makeHTML_loop [] gd st = Inr st"
| "makeHTML_loop (key # keys) gd st =
     (case map_of gd key of
        None \<Rightarrow> Inl (TypeError ''metric'')
      | Some d \<Rightarrow>
          makeHTML_loop keys gd
            (st\<lparr>wrappers := wrappers st @
                   [(key, \<lparr>heading = metric d, description_html = description d,
                           source_line = ''Data: <a href='' @ [CHR 0x22] @ url d @ [CHR 0x22] @ ''>'' @ source d @
                             ''</a>.&nbsp;&nbsp;&nbsp;Last updated: '' @ last_updated d\<rparr>)],
                 charts := (charts st)(key := [])\<rparr>))"

definition makeHTML :: "dataset \<Rightarrow> state \<Rightarrow> error + state" where
  "makeHTML gd st = makeHTML_loop DISPLAY_ORDER gd st"

definition empty_page :: state where
  \<comment> \<open>the page before \<^verbatim>\<open>init\<close>: \<^verbatim>\<open>#charts\<close> has no child, \<^verbatim>\<open>isMobile = false\<close>\<close>
  "empty_page = \<lparr>wrappers = [], charts = (\<lambda>k. []), isMobile = False, resized = 0\<rparr>"

section \<open>Rendering one chart\<close>

record margins =
  m_top :: real
  m_right :: real
  m_bottom :: real
  m_left :: real

definition margins :: margins where
  "margins = \<lparr>m_top = 10, m_right = 20, m_bottom = 30, m_left = 50\<rparr>"

definition aspectRatio :: "bool \<Rightarrow> real" where
  "aspectRatio mobile = (if mobile then 2.5 / 1 else 5 / 1)"

definition height :: "bool \<Rightarrow> real \<Rightarrow> real" where
  "height mobile w = w / aspectRatio mobile"

definition chartWidth :: "real \<Rightarrow> real" where
  "chartWidth w = w - (m_left margins + m_right margins)"

definition chartHeight :: "bool \<Rightarrow> real \<Rightarrow> real" where
  "chartHeight mobile w = height mobile w - (m_top margins + m_bottom margins)"

definition xScale :: "real \<Rightarrow> time_scale" where
  "xScale cw = \<lparr>t_range = (0, cw), t_domain = (MIN_DATE, MAX_DATE)\<rparr>"

definition yScale :: "real \<Rightarrow> metric \<Rightarrow> linear_scale" where
  "yScale ch d = \<lparr>l_range = (ch, 0), l_domain = (min_val d, max_val d)\<rparr>"

text \<open>The body of the loop over the terms, and the loop with its table.\<close>

definition term_rect :: "time_scale \<Rightarrow> real \<Rightarrow> pres_term \<Rightarrow> node" where
  "term_rect xs ch t =
     Elem ''rect''
       [(''class'', PresidentClass (president t)),
        (''x'', N (Num (time_at xs (term_start t)))),
        (''width'', N (Num (time_at xs (term_end t) - time_at xs (term_start t)))),
        (''y'', N (Num 0)),
        (''height'', N (Num ch))] []"

definition shading :: "time_scale \<Rightarrow> real \<Rightarrow> pres_term list \<Rightarrow> node list" where
  "shading xs ch terms = map (term_rect xs ch) terms"

definition xAxis :: "time_scale \<Rightarrow> (time_scale, date) axis" where
  "xAxis xs =
     (d3_svg_axis xs)\<lparr>orient := ''bottom'', tickValues := Some TICK_VALUES,
       tickFormat := FullYear\<rparr>"

text \<open>
  The vertical axis: the tick values and the sign format are set only when the metric
  has \<^verbatim>\<open>ticks\<close>; on mobile the tick values are the entries 0, 2 and 4.
\<close>

definition thin :: "real list \<Rightarrow> real option list" where
  "thin tv = [index tv 0, index tv 2, index tv 4]"

definition yTickValues :: "bool \<Rightarrow> real list \<Rightarrow> real option list" where
  "yTickValues mobile tv = (if mobile then thin tv else map Some tv)"

definition yAxis :: "bool \<Rightarrow> metric \<Rightarrow> linear_scale \<Rightarrow> (linear_scale, real option) axis" where
  "yAxis mobile d ys =
     (let ax = (d3_svg_axis ys)\<lparr>orient := ''left''\<rparr>
      in case ticks d of
           None \<Rightarrow> ax
         | Some tv \<Rightarrow>
             ax\<lparr>tickValues := Some (yTickValues mobile tv),
                tickFormat := SignFormat (show_plus d)\<rparr>)"

text \<open>
  The axis groups. The grid is drawn by the axis object itself, changed in place after
  the axis was drawn: tick size \<^verbatim>\<open>(-chartHeight, 0)\<close> or \<^verbatim>\<open>(-chartWidth, 0)\<close>, and the
  empty string as tick format.
\<close>

definition xAxisElement :: "time_scale \<Rightarrow> real \<Rightarrow> node" where
  "xAxisElement xs ch =
     Elem ''g'' [(''class'', S ''x axis''), (''transform'', MakeTranslate 0 ch)]
       [XAxisDrawn (xAxis xs),
        Elem ''g'' [(''class'', S ''x grid'')]
          [XAxisDrawn ((xAxis xs)\<lparr>tickSize := (- ch, 0), tickFormat := Constant []\<rparr>)]]"

definition yAxisElement :: "(linear_scale, real option) axis \<Rightarrow> real \<Rightarrow> node" where
  "yAxisElement ya cw =
     Elem ''g'' [(''class'', S ''y axis'')]
       [YAxisDrawn ya,
        Elem ''g'' [(''class'', S ''y grid'')]
          [YAxisDrawn (ya\<lparr>tickSize := (- cw, 0), tickFormat := Constant []\<rparr>)]]"

definition lines :: "time_scale \<Rightarrow> linear_scale \<Rightarrow> metric \<Rightarrow> node" where
  "lines xs ys d =
     Elem ''g'' [(''class'', S ''lines'')]
       [Elem ''path''
          [(''d'', MonotoneLine
                     (map (\<lambda>pt. (time_at xs (pdate pt), linear_at ys (pvalue pt))) (points d)))]
          []]"

definition bubble :: "time_scale \<Rightarrow> node" where
  "bubble xs =
     Elem ''rect''
       [(''class'', S ''label-bubble''),
        (''x'', N (Num (time_at xs MIN_DATE - 9))),
        (''y'', N (Num (- 10))),
        (''height'', N (Num 20))] []"

definition label_started :: "time_scale \<Rightarrow> node" where
  \<comment> \<open>the label when its \<^verbatim>\<open>y\<close> is computed: appended, with class and \<^verbatim>\<open>x\<close>\<close>
  "label_started xs =
     Elem ''text'' [(''class'', S ''label''), (''x'', N (Num (time_at xs MIN_DATE - 9)))] []"

definition label_node :: "time_scale \<Rightarrow> linear_scale \<Rightarrow> real list \<Rightarrow> string \<Rightarrow> node" where
  "label_node xs ys tv txt =
     Elem ''text''
       [(''class'', S ''label''),
        (''x'', N (Num (time_at xs MIN_DATE - 9))),
        (''y'', N (linear_at_entry ys (index tv (int (length tv) - 1)))),
        (''dy'', S ''.32em'')]
       [Text txt]"

definition bubble_sized :: "time_scale \<Rightarrow> string \<Rightarrow> node" where
  \<comment> \<open>the bubble after its width was set from the label's text length\<close>
  "bubble_sized xs txt =
     Elem ''rect''
       [(''class'', S ''label-bubble''),
        (''x'', N (Num (time_at xs MIN_DATE - 9))),
        (''y'', N (Num (- 10))),
        (''height'', N (Num 20)),
        (''width'', TextLengthPlus txt 10)] []"

definition chartWrapper :: "real \<Rightarrow> real \<Rightarrow> node list \<Rightarrow> node list" where
  \<comment> \<open>the content of the container: the root svg in its wrapper, around the children
      of \<^verbatim>\<open>chartElement\<close>; the transform is \<^verbatim>\<open>translate(left,top)\<close>\<close>
  "chartWrapper cw ch children =
     [Elem ''div'' [(''class'', S ''graphic-wrapper'')]
        [Elem ''svg''
           [(''width'', N (Num (cw + m_left margins + m_right margins))),
            (''height'', N (Num (ch + m_top margins + m_bottom margins)))]
           [Elem ''g'' [(''transform'', S ''translate(50,10)'')] children]]]"

text \<open>
  \<^verbatim>\<open>renderGraphic(config)\<close>, with the global \<^verbatim>\<open>isMobile\<close> read from the state. The
  container is cleared, then the chart is appended to it. The call throws
  at three places: at \<^verbatim>\<open>config['data']['min']\<close> when there is no data, with the root
  svg appended; at \<^verbatim>\<open>config['data']['ticks'].length\<close> when the metric has no ticks,
  with everything up to the label's \<^verbatim>\<open>x\<close> drawn; and at
  \<^verbatim>\<open>label[0][0].getComputedTextLength()\<close> when the container selection is empty, where
  d3 has drawn nothing and \<^verbatim>\<open>label[0][0]\<close> is \<^verbatim>\<open>null\<close>.
\<close>

definition renderGraphic :: "config \<Rightarrow> state \<Rightarrow> error option \<times> state" where
  "renderGraphic config st =
     (let mobile = isMobile st;
          w = width config;
          cw = chartWidth w;
          ch = chartHeight mobile w;
          containerElement = d3_select (container config) st;
          cleared = set_html containerElement [] st;
          xs = xScale cw
      in case data config of
           None \<Rightarrow>
             (Some (TypeError ''min''),
              append_html containerElement (chartWrapper cw ch []) cleared)
         | Some d \<Rightarrow>
             (let ys = yScale ch d;
                  parts = shading xs ch TERMS @
                    [xAxisElement xs ch, yAxisElement (yAxis mobile d ys) cw, lines xs ys d]
              in case ticks d of
                   None \<Rightarrow>
                     (Some (TypeError ''length''),
                      append_html containerElement
                        (chartWrapper cw ch (parts @ [bubble xs, label_started xs])) cleared)
                 | Some tv \<Rightarrow>
                     (case containerElement of
                        None \<Rightarrow> (Some (TypeError ''getComputedTextLength''), cleared)
                      | Some k \<Rightarrow>
                          (None,
                           append_html containerElement
                             (chartWrapper cw ch
                                (parts @ [bubble_sized xs (label d),
                                          label_node xs ys tv (label d)])) cleared))))"

section \<open>The render pass\<close>

text \<open>
  \<^verbatim>\<open>_.forIn(object, callback)\<close> over the entries in enumeration order; an exception of
  the callback ends the loop and is the loop's own.
\<close>

fun forIn ::
  "(string \<times> 'v) list \<Rightarrow> ('v \<Rightarrow> string \<Rightarrow> 's \<Rightarrow> error option \<times> 's) \<Rightarrow> 's \<Rightarrow> error option \<times> 's"
where
  "forIn [] f s = (None, s)"
| "forIn ((key, v) # rest) f s =
     (case f v key s of
        (Some e, s') \<Rightarrow> (Some e, s')
      | (None, s') \<Rightarrow> forIn rest f s')"

text \<open>
  \<^verbatim>\<open>render()\<close>; \<open>w\<close> is the width measured on \<^verbatim>\<open>#interactive-content\<close>. The parent
  frame is told of the new height after the loop, so not when the loop throws.
\<close>

definition render :: "real \<Rightarrow> dataset \<Rightarrow> state \<Rightarrow> error option \<times> state" where
  "render w graphicData st =
     (let st1 = st\<lparr>isMobile := (w \<le> MOBILE_BREAKPOINT)\<rparr>
      in case forIn graphicData
             (\<lambda>v key. renderGraphic
                \<lparr>container = ''#'' @ key @ '' .chart'', width = w, data = map_of graphicData key\<rparr>)
             st1 of
           (Some e, st2) \<Rightarrow> (Some e, st2)
         | (None, st2) \<Rightarrow> (None, st2\<lparr>resized := Suc (resized st2)\<rparr>))"

definition onResize :: "real \<Rightarrow> dataset \<Rightarrow> state \<Rightarrow> error option \<times> state" where
  "onResize w graphicData st = render w graphicData st"

section \<open>Reading a drawn chart\<close>

text \<open>
  The scales of the horizontal axes and the vertical axes that a tree holds, in document
  order, and an attribute of an element.
\<close>

fun x_scales :: "node \<Rightarrow> time_scale list" where
  "x_scales (Elem tag attrs children) = concat (map x_scales children)"
| "x_scales (Text s) = []"
| "x_scales (XAxisDrawn ax) = [scale ax]"
| "x_scales (YAxisDrawn ax) = []"

fun y_axes :: "node \<Rightarrow> (linear_scale, real option) axis list" where
  "y_axes (Elem tag attrs children) = concat (map y_axes children)"
| "y_axes (Text s) = []"
| "y_axes (XAxisDrawn ax) = []"
| "y_axes (YAxisDrawn ax) = [ax]"

fun attr_of :: "string \<Rightarrow> node \<Rightarrow> attr option" where
  "attr_of name (Elem tag attrs children) = map_of attrs name"
| "attr_of name n = None"

fun svg_of :: "node list \<Rightarrow> node option" where
  \<comment> \<open>the root svg element of a container's content\<close>
  "svg_of [Elem tag attrs (svg # rest)] = Some svg"
| "svg_of ns = None"

section \<open>A call of the render pass, in its two parts\<close>

text \<open>
  The configuration \<^verbatim>\<open>render\<close> builds for a key and the loop's callback, named; and the
  two parts of what \<open>renderGraphic\<close> returns: the exception if any, which depends on
  the configuration and on whether a container is selected, and the content the
  container is left with.
\<close>

definition metric_config :: "real \<Rightarrow> dataset \<Rightarrow> string \<Rightarrow> config" where
  "metric_config w gd key =
     \<lparr>container = ''#'' @ key @ '' .chart'', width = w, data = map_of gd key\<rparr>"

definition render_step ::
  "real \<Rightarrow> dataset \<Rightarrow> metric \<Rightarrow> string \<Rightarrow> state \<Rightarrow> error option \<times> state" where
  "render_step w gd v key = renderGraphic (metric_config w gd key)"

definition thrown :: "config \<Rightarrow> string option \<Rightarrow> error option" where
  "thrown config sel =
     (case data config of
        None \<Rightarrow> Some (TypeError ''min'')
      | Some d \<Rightarrow>
          (case ticks d of
             None \<Rightarrow> Some (TypeError ''length'')
           | Some tv \<Rightarrow>
               (case sel of
                  None \<Rightarrow> Some (TypeError ''getComputedTextLength'')
                | Some k \<Rightarrow> None)))"

definition drawn :: "bool \<Rightarrow> config \<Rightarrow> node list" where
  "drawn mobile config =
     (let w = width config; cw = chartWidth w; ch = chartHeight mobile w; xs = xScale cw
      in case data config of
           None \<Rightarrow> chartWrapper cw ch []
         | Some d \<Rightarrow>
             (let ys = yScale ch d;
                  parts = shading xs ch TERMS @
                    [xAxisElement xs ch, yAxisElement (yAxis mobile d ys) cw, lines xs ys d]
              in case ticks d of
                   None \<Rightarrow> chartWrapper cw ch (parts @ [bubble xs, label_started xs])
                 | Some tv \<Rightarrow>
                     chartWrapper cw ch
                       (parts @ [bubble_sized xs (label d), label_node xs ys tv (label d)])))"

section \<open>The render pass as the specification words it\<close>


section \<open>Example data\<close>

definition example_metric :: metric where
  "example_metric =
     \<lparr>metric = ''GDP'', description = ''Change in GDP'', url = ''http://example.org'',
      source = ''BEA'', last_updated = ''2020'', frequency = ''Annual'',
      points = [\<lparr>period = ''2009'', pdate = Date 2009 0 1, pvalue = - 4\<rparr>,
                \<lparr>period = ''2010'', pdate = Date 2010 0 1, pvalue = 2\<rparr>],
      min_val = - 6, max_val = 6, ticks = Some [- 4, - 2, 0, 2, 4], show_plus = True,
      label = ''Percent change''\<rparr>"

definition no_ticks_metric :: metric where
  "no_ticks_metric = example_metric\<lparr>ticks := None\<rparr>"

definition three_ticks_metric :: metric where
  "three_ticks_metric = example_metric\<lparr>ticks := Some [- 4, 0, 4]\<rparr>"

definition example_data :: dataset where
  "example_data = map (\<lambda>key. (key, example_metric)) DISPLAY_ORDER"

definition example_wrapper :: wrapper where
  "example_wrapper =
     \<lparr>heading = ''GDP'', description_html = ''Change in GDP'',
      source_line = ''Data: <a href='' @ [CHR 0x22] @ ''http://example.org'' @ [CHR 0x22] @
        ''>BEA</a>.&nbsp;&nbsp;&nbsp;Last updated: 2020''\<rparr>"

definition example_page :: state where
  \<comment> \<open>the page \<open>makeHTML\<close> builds from \<open>example_data\<close>\<close>
  "example_page =
     \<lparr>wrappers = map (\<lambda>key. (key, example_wrapper)) DISPLAY_ORDER, charts = (\<lambda>k. []),
      isMobile = False, resized = 0\<rparr>"


definition gdp_three_ticks :: dataset where
  \<comment> \<open>the first metric has three ticks\<close>
  "gdp_three_ticks = (''gdp'', three_ticks_metric) # tl example_data"


definition labor_without_ticks :: dataset where
  \<comment> \<open>the third metric has no ticks\<close>
  "labor_without_ticks =
     take 2 example_data @ (''labor'', no_ticks_metric) # drop 3 example_data"

section \<open>The dates of the globals\<close>

lemmas date_defs =
  Date_def MakeDay_def DayFromYear_def DaysBeforeMonth_def InLeapYear_def DaysInYear_def

lemma Date_values:
  "Date 2000 1 1 = 10988" "Date 2001 1 1 = 11354" "Date 2009 1 1 = 14276"
  "Date 2017 1 1 = 17198" "Date 2000 12 31 = 11353" "Date 2008 12 31 = 14275"
  "Date 2016 12 31 = 17197" "Date 2020 12 31 = 18658" "Date 2021 1 1 = 18659"
  by (simp_all add: date_defs)

text \<open>
  C10. The month argument 12 of \<^verbatim>\<open>new Date(y, 12, 31)\<close> carries into the next year, so
  every end date of \<open>TERMS\<close>, written with the years 2000, 2008, 2016 and 2020, is
  January 31 of the year after. With these dates every term starts before it ends,
  every term ends before the next one starts, the first term starts at \<open>MIN_DATE\<close>,
  which is 2000-02-01, and the last term ends on 2021-01-31, the day before \<open>MAX_DATE\<close>,
  which is 2021-02-01.
\<close>

theorem TERMS_actual_dates:
  "map term_end TERMS = map (\<lambda>y. Date y 12 31) [2000, 2008, 2016, 2020] \<and>
   list_all (\<lambda>y. reads_as (Date y 12 31) (y + 1) 0 31) [2000, 2008, 2016, 2020] \<and>
   list_all (\<lambda>t. term_start t < term_end t) TERMS \<and>
   sorted_wrt (\<lambda>a b. term_end a < term_start b) TERMS \<and>
   term_start (hd TERMS) = MIN_DATE \<and> reads_as MIN_DATE 2000 1 1 \<and>
   reads_as (term_end (last TERMS)) 2021 0 31 \<and>
   term_end (last TERMS) + 1 = MAX_DATE \<and> reads_as MAX_DATE 2021 1 1"
  by (simp add: TERMS_def MIN_DATE_def MAX_DATE_def Date_values reads_as_def
      DayFromYear_def DaysBeforeMonth_def InLeapYear_def DaysInYear_def)

section \<open>Selecting a container\<close>

lemma selector_inj: "selector a = selector b \<longleftrightarrow> a = b"
  by (simp add: selector_def)

lemma find_selector:
  "find (\<lambda>k. selector k = selector key) ks = (if key \<in> set ks then Some key else None)"
  by (induction ks) (auto simp: selector_inj)

lemma d3_select_selector:
  "d3_select (selector key) st = (if key \<in> fst ` set (wrappers st) then Some key else None)"
  by (simp add: d3_select_def find_selector)

lemma set_html_fields [simp]:
  "wrappers (set_html sel ns st) = wrappers st"
  "isMobile (set_html sel ns st) = isMobile st"
  "resized (set_html sel ns st) = resized st"
  by (simp_all add: set_html_def split: option.splits)

lemma d3_select_set_html [simp]: "d3_select s (set_html sel ns st) = d3_select s st"
  by (simp add: d3_select_def)

section \<open>The shape of a call and of the loop\<close>

lemma renderGraphic_eq:
  "renderGraphic config st =
     (thrown config (d3_select (container config) st),
      set_html (d3_select (container config) st) (drawn (isMobile st) config) st)"
  by (simp add: renderGraphic_def thrown_def drawn_def Let_def set_html_def append_html_def
      split: option.splits)

lemma container_metric_config [simp]: "container (metric_config w gd key) = selector key"
  by (simp add: metric_config_def selector_def)

lemma step_eq:
  "render_step w gd v key st =
     (thrown (metric_config w gd key) (d3_select (selector key) st),
      set_html (d3_select (selector key) st) (drawn (isMobile st) (metric_config w gd key)) st)"
  by (simp add: render_step_def renderGraphic_eq)

lemma render_eq:
  "render w gd st =
     (case forIn gd (render_step w gd) (st\<lparr>isMobile := (w \<le> MOBILE_BREAKPOINT)\<rparr>) of
        (Some e, st2) \<Rightarrow> (Some e, st2)
      | (None, st2) \<Rightarrow> (None, st2\<lparr>resized := Suc (resized st2)\<rparr>))"
proof -
  have eq: "(\<lambda>v key. renderGraphic
               \<lparr>container = ''#'' @ key @ '' .chart'', width = w, data = map_of gd key\<rparr>) =
            render_step w gd"
    by (simp add: render_step_def metric_config_def fun_eq_iff)
  show ?thesis unfolding render_def eq Let_def ..
qed

lemma forIn_fields:
  "wrappers (snd (forIn l (render_step w gd) st)) = wrappers st \<and>
   isMobile (snd (forIn l (render_step w gd) st)) = isMobile st \<and>
   resized (snd (forIn l (render_step w gd) st)) = resized st"
proof (induction l arbitrary: st)
  case Nil
  then show ?case by simp
next
  case (Cons a l)
  obtain key v where a: "a = (key, v)" by (cases a)
  note s = step_eq [of w gd v key st]
  show ?case
    by (cases "thrown (metric_config w gd key) (d3_select (selector key) st)")
       (simp_all add: a s Cons.IH)
qed

lemma forIn_append:
  "forIn (l1 @ l2) f s =
     (case forIn l1 f s of (Some e, s') \<Rightarrow> (Some e, s') | (None, s') \<Rightarrow> forIn l2 f s')"
  by (induction l1 arbitrary: s) (auto split: prod.splits option.splits)

lemma forIn_charts_outside:
  "k \<notin> fst ` set l \<Longrightarrow> charts (snd (forIn l (render_step w gd) st)) k = charts st k"
proof (induction l arbitrary: st)
  case Nil
  then show ?case by simp
next
  case (Cons a l)
  obtain key v where a: "a = (key, v)" by (cases a)
  from Cons.prems a have ne: "k \<noteq> key" and out: "k \<notin> fst ` set l" by auto
  have one: "charts (set_html (d3_select (selector key) st) ns st) k = charts st k" for ns
    using ne by (auto simp: set_html_def d3_select_selector)
  note s = step_eq [of w gd v key st]
  show ?case
    by (cases "thrown (metric_config w gd key) (d3_select (selector key) st)")
       (simp_all add: a s Cons.IH [OF out] one)
qed

lemma forIn_chart_drawn:
  assumes "fst (forIn l (render_step w gd) st) = None" and "k \<in> fst ` set l"
  shows "charts (snd (forIn l (render_step w gd) st)) k =
           drawn (isMobile st) (metric_config w gd k) \<and> k \<in> fst ` set (wrappers st)"
  using assms
proof (induction l arbitrary: st)
  case Nil
  then show ?case by simp
next
  case (Cons a l)
  obtain key v where a: "a = (key, v)" by (cases a)
  let ?st' = "set_html (d3_select (selector key) st)
    (drawn (isMobile st) (metric_config w gd key)) st"
  note s = step_eq [of w gd v key st]
  from Cons.prems(1)
  have ok: "thrown (metric_config w gd key) (d3_select (selector key) st) = None"
    by (cases "thrown (metric_config w gd key) (d3_select (selector key) st)")
       (simp_all add: a s)
  have all: "forIn (a # l) (render_step w gd) st = forIn l (render_step w gd) ?st'"
    using ok by (simp add: a s)
  from Cons.prems(1) have rest: "fst (forIn l (render_step w gd) ?st') = None"
    by (simp only: all)
  show ?case
  proof (cases "k \<in> fst ` set l")
    case True
    from Cons.IH [OF rest True] show ?thesis by (simp add: all)
  next
    case False
    with Cons.prems(2) a have k: "k = key" by auto
    from ok have sel: "d3_select (selector key) st = Some key"
      by (auto simp: thrown_def d3_select_selector split: option.splits if_splits)
    have "charts (snd (forIn l (render_step w gd) ?st')) k = charts ?st' k"
      by (rule forIn_charts_outside [OF False])
    with sel k show ?thesis
      by (auto simp: all set_html_def d3_select_selector split: if_splits)
  qed
qed

section \<open>The content of a drawn chart\<close>

lemma makeHTML_example: "makeHTML example_data empty_page = Inr example_page"
  by (simp add: makeHTML_def DISPLAY_ORDER_def example_data_def example_page_def empty_page_def
     example_metric_def example_wrapper_def fun_eq_iff)

lemma x_scales_shading: "concat (map x_scales (shading xs ch ts)) = []"
  by (induction ts) (simp_all add: shading_def term_rect_def)

lemma y_axes_shading: "concat (map y_axes (shading xs ch ts)) = []"
  by (induction ts) (simp_all add: shading_def term_rect_def)

lemmas part_defs =
  xAxisElement_def yAxisElement_def lines_def bubble_def label_started_def label_node_def
  bubble_sized_def

lemma x_scales_drawn:
  "data config = Some d \<Longrightarrow>
   concat (map x_scales (drawn mobile config)) =
     [xScale (chartWidth (width config)), xScale (chartWidth (width config))]"
  by (cases "ticks d")
     (simp_all add: drawn_def Let_def chartWrapper_def x_scales_shading part_defs xAxis_def
       d3_svg_axis_def)

lemma y_axes_drawn:
  "data config = Some d \<Longrightarrow>
   concat (map y_axes (drawn mobile config)) =
     (let ya = yAxis mobile d (yScale (chartHeight mobile (width config)) d)
      in [ya, ya\<lparr>tickSize := (- chartWidth (width config), 0), tickFormat := Constant []\<rparr>])"
  by (cases "ticks d")
     (simp_all add: drawn_def Let_def chartWrapper_def y_axes_shading part_defs)

lemma chart_after_call:
  "d3_select (container config) st = Some k \<Longrightarrow>
   charts (snd (renderGraphic config st)) k = drawn (isMobile st) config"
  by (simp add: renderGraphic_eq set_html_def)

lemma example_select: "d3_select ''#gdp .chart'' example_page = Some ''gdp''"
  by (simp add: d3_select_def example_page_def DISPLAY_ORDER_def selector_def)

lemma integerToString_examples:
  "integerToString (- 2) = ''-2''" "integerToString 0 = ''0''" "integerToString 4 = ''4''"
  by (simp_all add: integerToString_def)

section \<open>The horizontal scale\<close>

text \<open>
  C1. Whatever the metric's data, and on a narrow or a wide page, the horizontal axis and
  its grid in the chart that a call draws have the scale with domain
  \<open>(MIN_DATE, MAX_DATE)\<close> and range \<open>(0, chartWidth)\<close>, and no other; \<open>MIN_DATE\<close> is
  2000-02-01 and \<open>MAX_DATE\<close> is 2021-02-01 (\<^verbatim>\<open>getMonth()\<close> 1 is February).
\<close>

theorem x_scale_domain_invariant:
  assumes "data config = Some d" and "d3_select (container config) st = Some k"
  shows "set (concat (map x_scales (charts (snd (renderGraphic config st)) k))) =
           {\<lparr>t_range = (0, chartWidth (width config)), t_domain = (MIN_DATE, MAX_DATE)\<rparr>} \<and>
         reads_as MIN_DATE 2000 1 1 \<and> reads_as MAX_DATE 2021 1 1"
proof -
  have "set (concat (map x_scales (charts (snd (renderGraphic config st)) k))) =
           {\<lparr>t_range = (0, chartWidth (width config)), t_domain = (MIN_DATE, MAX_DATE)\<rparr>}"
    using assms by (simp add: chart_after_call x_scales_drawn xScale_def)
  moreover have "reads_as MIN_DATE 2000 1 1 \<and> reads_as MAX_DATE 2021 1 1"
    by (simp add: MIN_DATE_def MAX_DATE_def reads_as_def date_defs)
  ultimately show ?thesis by simp
qed

theorem x_scale_domain_invariant_witness:
  "data \<lparr>container = ''#gdp .chart'', width = 940, data = Some example_metric\<rparr> =
     Some example_metric \<and>
   d3_select ''#gdp .chart'' example_page = Some ''gdp'' \<and>
   set (concat (map x_scales
     (charts (snd (renderGraphic
        \<lparr>container = ''#gdp .chart'', width = 940, data = Some example_metric\<rparr>
        example_page)) ''gdp''))) =
     {\<lparr>t_range = (0, 870), t_domain = (10988, 18659)\<rparr>}"
  using x_scale_domain_invariant
    [of "\<lparr>container = ''#gdp .chart'', width = 940, data = Some example_metric\<rparr>"
        example_metric example_page "''gdp''"]
  by (simp add: example_select chartWidth_def margins_def MIN_DATE_def MAX_DATE_def Date_values)

section \<open>Tick labels\<close>

text \<open>
  C3. For a metric with ticks the vertical axis has the sign format with the metric's
  \<open>show_plus\<close>. Under it the label of a tick \<open>d \<le> 0\<close> is the number as a string; the
  label of a tick \<open>d > 0\<close> is that string with \<open>+\<close> in front when \<open>show_plus\<close> is set,
  and the string alone otherwise. \<open>str\<close> is any number-to-string conversion.
\<close>

theorem sign_tick_label:
  assumes "ticks m = Some tv"
  shows "tickFormat (yAxis mobile m ys) = SignFormat (show_plus m) \<and>
         (d \<le> 0 \<longrightarrow> text_of str (signTickFormat str (show_plus m) (Some d)) = str d) \<and>
         (0 < d \<and> show_plus m \<longrightarrow>
            text_of str (signTickFormat str (show_plus m) (Some d)) = ''+'' @ str d) \<and>
         (0 < d \<and> \<not> show_plus m \<longrightarrow>
            text_of str (signTickFormat str (show_plus m) (Some d)) = str d)"
  using assms by (simp add: yAxis_def Let_def signTickFormat_def text_of_def)

theorem sign_tick_label_witness:
  "ticks example_metric = Some [- 4, - 2, 0, 2, 4] \<and> show_plus example_metric \<and>
   text_of integerToString
     (signTickFormat integerToString (show_plus example_metric) (Some 4)) = ''+4'' \<and>
   text_of integerToString
     (signTickFormat integerToString (show_plus example_metric) (Some (- 2))) = ''-2'' \<and>
   text_of integerToString
     (signTickFormat integerToString (show_plus example_metric) (Some 0)) = ''0''"
  using sign_tick_label [where m = example_metric and tv = "[- 4, - 2, 0, 2, 4]" and d = 4
      and str = integerToString]
    sign_tick_label [where m = example_metric and tv = "[- 4, - 2, 0, 2, 4]" and d = "- 2"
      and str = integerToString]
    sign_tick_label [where m = example_metric and tv = "[- 4, - 2, 0, 2, 4]" and d = 0
      and str = integerToString]
  by (simp add: example_metric_def integerToString_examples)

section \<open>The breakpoint\<close>

lemma forIn_isMobile: "isMobile (snd (forIn l (render_step w gd) st)) = isMobile st"
  using forIn_fields [of l w gd st] by simp

lemma render_isMobile: "isMobile (snd (render w gd st)) = (w \<le> MOBILE_BREAKPOINT)"
  by (cases "forIn gd (render_step w gd) (st\<lparr>isMobile := (w \<le> MOBILE_BREAKPOINT)\<rparr>)" rule: prod.exhaust)
     (use forIn_isMobile [of gd w gd "st\<lparr>isMobile := (w \<le> MOBILE_BREAKPOINT)\<rparr>"] in
       \<open>auto simp: render_eq split: option.splits\<close>)

lemma render_chart_drawn:
  assumes "fst (render w gd st) = None" and "k \<in> fst ` set gd"
  shows "charts (snd (render w gd st)) k = drawn (w \<le> MOBILE_BREAKPOINT) (metric_config w gd k)"
    and "k \<in> fst ` set (wrappers st)"
proof -
  let ?st1 = "st\<lparr>isMobile := (w \<le> MOBILE_BREAKPOINT)\<rparr>"
  obtain e st2 where f: "forIn gd (render_step w gd) ?st1 = (e, st2)"
    by (cases "forIn gd (render_step w gd) ?st1")
  with assms(1) have e: "e = None" by (cases e) (simp_all add: render_eq)
  from f e have ok: "fst (forIn gd (render_step w gd) ?st1) = None" by simp
  from forIn_chart_drawn [OF ok assms(2)] f
  have "charts st2 k = drawn (w \<le> MOBILE_BREAKPOINT) (metric_config w gd k)"
    and w: "k \<in> fst ` set (wrappers st)" by simp_all
  then show "charts (snd (render w gd st)) k = drawn (w \<le> MOBILE_BREAKPOINT) (metric_config w gd k)"
    by (simp add: render_eq f e)
  from w show "k \<in> fst ` set (wrappers st)" .
qed

lemma svg_of_drawn:
  "svg_of (drawn mobile config) \<noteq> None \<and>
   attr_of ''height'' (the (svg_of (drawn mobile config))) = Some (N (Num (height mobile (width config))))"
  by (simp add: drawn_def Let_def chartWrapper_def chartHeight_def split: option.splits)

lemma thrown_example:
  "key \<in> set DISPLAY_ORDER \<Longrightarrow> wrappers st = wrappers example_page \<Longrightarrow>
   thrown (metric_config w example_data key) (d3_select (selector key) st) = None"
  by (auto simp: thrown_def metric_config_def d3_select_selector example_page_def example_data_def
      map_of_map_restrict example_metric_def image_image)

lemma render_example_ok: "fst (render w example_data example_page) = None"
proof -
  have "wrappers st = wrappers example_page \<Longrightarrow> set l \<subseteq> set example_data \<Longrightarrow>
       fst (forIn l (render_step w example_data) st) = None" for l st
  proof (induction l arbitrary: st)
    case Nil
    then show ?case by simp
  next
    case (Cons a l)
    obtain key v where a: "a = (key, v)" by (cases a)
    with Cons.prems(2) have "key \<in> set DISPLAY_ORDER" by (auto simp: example_data_def)
    from thrown_example [OF this Cons.prems(1)] Cons.prems Cons.IH
    show ?case by (simp add: a step_eq)
  qed
  from this [of "example_page\<lparr>isMobile := (w \<le> MOBILE_BREAKPOINT)\<rparr>" example_data]
  show ?thesis
    by (cases "forIn example_data (render_step w example_data)
                 (example_page\<lparr>isMobile := (w \<le> MOBILE_BREAKPOINT)\<rparr>)")
       (simp add: render_eq)
qed

lemma map_of_example_gdp: "map_of example_data ''gdp'' = Some example_metric"
  by (simp add: example_data_def DISPLAY_ORDER_def)

text \<open>
  C2. A render pass with measured width \<open>w\<close> classifies the page as mobile exactly when
  \<open>w \<le> 600\<close>. The aspect ratio is then 2.5 and the height \<open>w / 2.5\<close>, and a metric with
  five ticks gets three tick values; otherwise the aspect ratio is 5, the height \<open>w / 5\<close>,
  and the five tick values stay. When the pass completes, the chart of such a metric
  holds exactly that: the svg has this height, and the vertical axis and its grid have
  three, or five, tick values.
\<close>

theorem breakpoint_property:
  assumes "ticks d = Some tv" and "length tv = 5"
  shows "isMobile (snd (render w gd st)) = (w \<le> 600) \<and>
         aspectRatio (w \<le> 600) = (if w \<le> 600 then 5 / 2 else 5) \<and>
         height (w \<le> 600) w = w / (if w \<le> 600 then 5 / 2 else 5) \<and>
         map_option length (tickValues (yAxis (w \<le> 600) d ys)) =
           Some (if w \<le> 600 then 3 else 5) \<and>
         (fst (render w gd st) = None \<and> map_of gd k = Some d \<longrightarrow>
            (\<exists>svg. svg_of (charts (snd (render w gd st)) k) = Some svg \<and>
               attr_of ''height'' svg = Some (N (Num (w / (if w \<le> 600 then 5 / 2 else 5))))) \<and>
            map (\<lambda>ax. map_option length (tickValues ax))
                (concat (map y_axes (charts (snd (render w gd st)) k))) =
              [Some (if w \<le> 600 then 3 else 5), Some (if w \<le> 600 then 3 else 5)])"
proof -
  have a: "aspectRatio (w \<le> 600) = (if w \<le> 600 then 5 / 2 else 5)"
    by (simp add: aspectRatio_def)
  have h: "height (w \<le> 600) w = w / (if w \<le> 600 then 5 / 2 else 5)"
    by (simp add: height_def a)
  have t: "map_option length (tickValues (yAxis (w \<le> 600) d ys)) =
      Some (if w \<le> 600 then 3 else 5)" for ys
    using assms by (simp add: yAxis_def Let_def yTickValues_def thin_def)
  have r: "isMobile (snd (render w gd st)) = (w \<le> 600)"
    by (simp add: render_isMobile MOBILE_BREAKPOINT_def)
  have dom: "fst (render w gd st) = None \<and> map_of gd k = Some d \<longrightarrow>
            (\<exists>svg. svg_of (charts (snd (render w gd st)) k) = Some svg \<and>
               attr_of ''height'' svg = Some (N (Num (w / (if w \<le> 600 then 5 / 2 else 5))))) \<and>
            map (\<lambda>ax. map_option length (tickValues ax))
                (concat (map y_axes (charts (snd (render w gd st)) k))) =
              [Some (if w \<le> 600 then 3 else 5), Some (if w \<le> 600 then 3 else 5)]"
  proof (intro impI, elim conjE)
    assume ok: "fst (render w gd st) = None" and k: "map_of gd k = Some d"
    from k have "k \<in> fst ` set gd" by (force dest: map_of_SomeD)
    from render_chart_drawn(1) [OF ok this]
    have c: "charts (snd (render w gd st)) k = drawn (w \<le> 600) (metric_config w gd k)"
      by (simp add: MOBILE_BREAKPOINT_def)
    have dk: "data (metric_config w gd k) = Some d" "width (metric_config w gd k) = w"
      by (simp_all add: metric_config_def k)
    from svg_of_drawn [of "w \<le> 600" "metric_config w gd k"]
    have "\<exists>svg. svg_of (charts (snd (render w gd st)) k) = Some svg \<and>
               attr_of ''height'' svg = Some (N (Num (w / (if w \<le> 600 then 5 / 2 else 5))))"
      by (auto simp: c dk h)
    moreover have "map (\<lambda>ax. map_option length (tickValues ax))
                (concat (map y_axes (charts (snd (render w gd st)) k))) =
              [Some (if w \<le> 600 then 3 else 5), Some (if w \<le> 600 then 3 else 5)]"
      by (simp add: c y_axes_drawn [OF dk(1)] Let_def t)
    ultimately show "(\<exists>svg. svg_of (charts (snd (render w gd st)) k) = Some svg \<and>
               attr_of ''height'' svg = Some (N (Num (w / (if w \<le> 600 then 5 / 2 else 5))))) \<and>
            map (\<lambda>ax. map_option length (tickValues ax))
                (concat (map y_axes (charts (snd (render w gd st)) k))) =
              [Some (if w \<le> 600 then 3 else 5), Some (if w \<le> 600 then 3 else 5)]"
      by (rule conjI)
  qed
  show ?thesis
    using r a h t [of ys] dom by (intro conjI) assumption+
qed


theorem breakpoint_property_witness:
  "ticks example_metric = Some [- 4, - 2, 0, 2, 4] \<and> length [- 4, - 2, 0, 2, 4 :: real] = 5 \<and>
   isMobile (snd (render 500 example_data example_page)) \<and>
   aspectRatio True = 5 / 2 \<and> height True 500 = 200 \<and>
   fst (render 500 example_data example_page) = None \<and>
   map_of example_data ''gdp'' = Some example_metric \<and>
   map (\<lambda>ax. map_option length (tickValues ax))
     (concat (map y_axes (charts (snd (render 500 example_data example_page)) ''gdp''))) =
     [Some 3, Some 3]"
  using breakpoint_property [where d = example_metric and tv = "[- 4, - 2, 0, 2, 4]" and w = 500
      and gd = example_data and st = example_page and k = "''gdp''"]
  by (simp add: render_example_ok map_of_example_gdp) (simp add: example_metric_def)

section \<open>The shading of the terms\<close>






section \<open>Ticks that are short or missing\<close>

lemma thrown_ticks:
  "data config = Some d \<Longrightarrow> ticks d = Some tv \<Longrightarrow> thrown config (Some k) = None"
  by (simp add: thrown_def)


lemma three_ticks_select:
  "d3_select ''#gdp .chart'' (example_page\<lparr>isMobile := True\<rparr>) = Some ''gdp''"
  by (simp add: d3_select_def example_page_def DISPLAY_ORDER_def selector_def)

lemma thrown_three_ticks:
  "key \<in> set DISPLAY_ORDER \<Longrightarrow> wrappers st = wrappers example_page \<Longrightarrow>
   thrown (metric_config w gdp_three_ticks key) (d3_select (selector key) st) = None"
  by (auto simp: thrown_def metric_config_def d3_select_selector example_page_def example_data_def
      gdp_three_ticks_def DISPLAY_ORDER_def three_ticks_metric_def example_metric_def)

lemma render_three_ticks_ok: "fst (render w gdp_three_ticks example_page) = None"
proof -
  have "wrappers st = wrappers example_page \<Longrightarrow> fst ` set l \<subseteq> set DISPLAY_ORDER \<Longrightarrow>
       fst (forIn l (render_step w gdp_three_ticks) st) = None" for l st
  proof (induction l arbitrary: st)
    case Nil
    then show ?case by simp
  next
    case (Cons a l)
    obtain key v where a: "a = (key, v)" by (cases a)
    with Cons.prems(2) have "key \<in> set DISPLAY_ORDER" by auto
    from thrown_three_ticks [OF this Cons.prems(1)] Cons.prems Cons.IH
    show ?case by (simp add: a step_eq)
  qed
  from this [of "example_page\<lparr>isMobile := (w \<le> MOBILE_BREAKPOINT)\<rparr>" gdp_three_ticks]
  show ?thesis
    by (cases "forIn gdp_three_ticks (render_step w gdp_three_ticks)
                 (example_page\<lparr>isMobile := (w \<le> MOBILE_BREAKPOINT)\<rparr>)")
       (simp add: render_eq gdp_three_ticks_def example_data_def DISPLAY_ORDER_def)
qed

text \<open>
  C4, as the claim states it, fails: on a narrow page a metric with three ticks is
  rendered with no error, and its vertical axis gets the tick values \<open>-4\<close>, \<open>4\<close> and
  \<^verbatim>\<open>undefined\<close>.
\<close>

theorem short_ticks_no_error:
  "makeHTML gdp_three_ticks empty_page = Inr example_page \<and>
   map_option ticks (map_of gdp_three_ticks ''gdp'') = Some (Some [- 4, 0, 4]) \<and>
   isMobile (snd (render 500 gdp_three_ticks example_page)) \<and>
   fst (render 500 gdp_three_ticks example_page) = None \<and>
   map tickValues
     (concat (map y_axes (charts (snd (render 500 gdp_three_ticks example_page)) ''gdp''))) =
     [Some [Some (- 4), Some 4, None], Some [Some (- 4), Some 4, None]]"
proof -
  have m: "makeHTML gdp_three_ticks empty_page = Inr example_page"
    by (simp add: makeHTML_def DISPLAY_ORDER_def example_data_def example_page_def empty_page_def
     example_metric_def example_wrapper_def fun_eq_iff gdp_three_ticks_def three_ticks_metric_def)
  have k: "''gdp'' \<in> fst ` set gdp_three_ticks" by (simp add: gdp_three_ticks_def)
  have d: "data (metric_config 500 gdp_three_ticks ''gdp'') = Some three_ticks_metric"
    by (simp add: metric_config_def gdp_three_ticks_def)
  have c: "charts (snd (render 500 gdp_three_ticks example_page)) ''gdp'' =
      drawn True (metric_config 500 gdp_three_ticks ''gdp'')"
    using render_chart_drawn(1) [OF render_three_ticks_ok k, of 500]
    by (simp add: MOBILE_BREAKPOINT_def)
  show ?thesis
    by (simp add: m render_three_ticks_ok render_isMobile MOBILE_BREAKPOINT_def c
        y_axes_drawn [OF d] Let_def)
       (simp add: gdp_three_ticks_def three_ticks_metric_def yAxis_def yTickValues_def thin_def
        index_def Let_def)
qed

text \<open>
  C4, amended. On a narrow page, for a metric with fewer than five ticks, the thinning
  raises nothing: the call returns normally, and the vertical axis and its grid have the
  three tick values \<^verbatim>\<open>ticks[0]\<close>, \<^verbatim>\<open>ticks[2]\<close> and \<^verbatim>\<open>ticks[4]\<close>, where an entry past
  the end of the list is \<^verbatim>\<open>undefined\<close>.
\<close>

theorem thinning_short_ticks:
  assumes "data config = Some d" and "ticks d = Some tv" and "length tv < 5"
    and "isMobile st" and "d3_select (container config) st = Some k"
  shows "fst (renderGraphic config st) = None \<and>
         map tickValues (concat (map y_axes (charts (snd (renderGraphic config st)) k))) =
           [Some [index tv 0, index tv 2, index tv 4], Some [index tv 0, index tv 2, index tv 4]] \<and>
         index tv 4 = None \<and> (length tv < 3 \<longrightarrow> index tv 2 = None) \<and>
         (tv = [] \<longrightarrow> index tv 0 = None)"
  using assms
  by (simp add: renderGraphic_eq thrown_ticks set_html_def y_axes_drawn Let_def yAxis_def
      yTickValues_def thin_def index_def)

theorem thinning_short_ticks_witness:
  "data \<lparr>container = ''#gdp .chart'', width = 500, data = Some three_ticks_metric\<rparr> =
     Some three_ticks_metric \<and>
   ticks three_ticks_metric = Some [- 4, 0, 4] \<and> length [- 4, 0, 4 :: real] < 5 \<and>
   isMobile (example_page\<lparr>isMobile := True\<rparr>) \<and>
   d3_select ''#gdp .chart'' (example_page\<lparr>isMobile := True\<rparr>) = Some ''gdp'' \<and>
   fst (renderGraphic \<lparr>container = ''#gdp .chart'', width = 500, data = Some three_ticks_metric\<rparr>
          (example_page\<lparr>isMobile := True\<rparr>)) = None \<and>
   map tickValues (concat (map y_axes (charts (snd (renderGraphic
       \<lparr>container = ''#gdp .chart'', width = 500, data = Some three_ticks_metric\<rparr>
       (example_page\<lparr>isMobile := True\<rparr>))) ''gdp''))) =
     [Some [Some (- 4), Some 4, None], Some [Some (- 4), Some 4, None]]"
  using thinning_short_ticks
    [of "\<lparr>container = ''#gdp .chart'', width = 500, data = Some three_ticks_metric\<rparr>"
        three_ticks_metric "[- 4, 0, 4]" "example_page\<lparr>isMobile := True\<rparr>" "''gdp''"]
  by (simp add: three_ticks_select three_ticks_metric_def index_def)



section \<open>Rendering twice\<close>

lemma forIn_error_same:
  "wrappers st2 = wrappers st \<Longrightarrow> isMobile st2 = isMobile st \<Longrightarrow>
   fst (forIn l (render_step w gd) st2) = fst (forIn l (render_step w gd) st)"
proof (induction l arbitrary: st st2)
  case Nil
  then show ?case by simp
next
  case (Cons a l)
  obtain key v where a: "a = (key, v)" by (cases a)
  have sel: "d3_select (selector key) st2 = d3_select (selector key) st"
    using Cons.prems by (simp add: d3_select_def)
  let ?n = "\<lambda>s. set_html (d3_select (selector key) s)
    (drawn (isMobile s) (metric_config w gd key)) s"
  have "fst (forIn l (render_step w gd) (?n st2)) = fst (forIn l (render_step w gd) (?n st))"
    by (rule Cons.IH) (simp_all add: Cons.prems)
  then show ?case
    by (cases "thrown (metric_config w gd key) (d3_select (selector key) st)")
       (simp_all add: a step_eq [of w gd v key st] step_eq [of w gd v key st2] sel)
qed

lemma forIn_overwrites:
  "\<exists>W. \<forall>st2. wrappers st2 = wrappers (st::state) \<and> isMobile st2 = isMobile st \<longrightarrow>
     (\<forall>k. charts (snd (forIn l (render_step w gd) st2)) k =
        (if k \<in> W then drawn (isMobile st) (metric_config w gd k) else charts st2 k))"
proof (induction l arbitrary: st)
  case Nil
  have "\<forall>st2. wrappers st2 = wrappers st \<and> isMobile st2 = isMobile st \<longrightarrow>
     (\<forall>k. charts (snd (forIn [] (render_step w gd) st2)) k =
        (if k \<in> {} then drawn (isMobile st) (metric_config w gd k) else charts st2 k))"
    by simp
  then show ?case by (rule exI)
next
  case (Cons a l)
  obtain key v where a: "a = (key, v)" by (cases a)
  let ?c = "drawn (isMobile st) (metric_config w gd key)"
  let ?sel = "d3_select (selector key) st"
  let ?K = "if key \<in> fst ` set (wrappers st) then {key} else {}"
  from Cons.IH [of st] obtain W where W: "\<And>(st2::state) k. wrappers st2 = wrappers st \<Longrightarrow>
      isMobile st2 = isMobile st \<Longrightarrow>
      charts (snd (forIn l (render_step w gd) st2)) k =
        (if k \<in> W then drawn (isMobile st) (metric_config w gd k) else charts st2 k)"
    by blast
  have one: "charts (set_html (d3_select (selector key) st2) ?c st2) k =
      (if k \<in> ?K then drawn (isMobile st) (metric_config w gd k) else charts st2 k)"
    if "wrappers st2 = wrappers st" for st2 :: state and k
    using that by (auto simp: set_html_def d3_select_selector)
  show ?case
  proof (cases "thrown (metric_config w gd key) ?sel")
    case None
    have "\<forall>st2. wrappers st2 = wrappers st \<and> isMobile st2 = isMobile st \<longrightarrow>
     (\<forall>k. charts (snd (forIn (a # l) (render_step w gd) st2)) k =
        (if k \<in> W \<union> ?K then drawn (isMobile st) (metric_config w gd k) else charts st2 k))"
    proof (intro allI impI, elim conjE)
      fix st2 :: state and k
      assume eq: "wrappers st2 = wrappers st" "isMobile st2 = isMobile st"
      then have sel: "d3_select (selector key) st2 = ?sel" by (simp add: d3_select_def)
      let ?n = "set_html (d3_select (selector key) st2) ?c st2"
      have "forIn (a # l) (render_step w gd) st2 = forIn l (render_step w gd) ?n"
        using None by (simp add: a step_eq sel eq)
      moreover have "charts (snd (forIn l (render_step w gd) ?n)) k =
          (if k \<in> W then drawn (isMobile st) (metric_config w gd k) else charts ?n k)"
        by (rule W) (simp_all add: eq)
      ultimately show "charts (snd (forIn (a # l) (render_step w gd) st2)) k =
          (if k \<in> W \<union> ?K then drawn (isMobile st) (metric_config w gd k) else charts st2 k)"
        using one [OF eq(1), of k] by auto
    qed
    then show ?thesis by (rule exI)
  next
    case (Some e)
    have "\<forall>st2. wrappers st2 = wrappers st \<and> isMobile st2 = isMobile st \<longrightarrow>
     (\<forall>k. charts (snd (forIn (a # l) (render_step w gd) st2)) k =
        (if k \<in> ?K then drawn (isMobile st) (metric_config w gd k) else charts st2 k))"
    proof (intro allI impI, elim conjE)
      fix st2 :: state and k
      assume eq: "wrappers st2 = wrappers st" "isMobile st2 = isMobile st"
      then have sel: "d3_select (selector key) st2 = ?sel" by (simp add: d3_select_def)
      have "forIn (a # l) (render_step w gd) st2 =
          (Some e, set_html (d3_select (selector key) st2) ?c st2)"
        using Some by (simp add: a step_eq sel eq)
      then show "charts (snd (forIn (a # l) (render_step w gd) st2)) k =
          (if k \<in> ?K then drawn (isMobile st) (metric_config w gd k) else charts st2 k)"
        using one [OF eq(1), of k] by simp
    qed
    then show ?thesis by (rule exI)
  qed
qed

lemma forIn_twice:
  assumes "wrappers st2 = wrappers st" and "isMobile st2 = isMobile st"
    and "charts st2 = charts (snd (forIn l (render_step w gd) st))"
  shows "charts (snd (forIn l (render_step w gd) st2)) = charts st2"
proof -
  from forIn_overwrites [of st l w gd] obtain W where W: "\<And>(s::state) k. wrappers s = wrappers st \<Longrightarrow>
      isMobile s = isMobile st \<Longrightarrow>
      charts (snd (forIn l (render_step w gd) s)) k =
        (if k \<in> W then drawn (isMobile st) (metric_config w gd k) else charts s k)"
    by blast
  have "charts (snd (forIn l (render_step w gd) st2)) k = charts st2 k" for k
    using W [OF assms(1,2), of k] W [OF refl refl, of k] assms(3) by simp
  then show ?thesis by (simp add: fun_eq_iff)
qed

lemma render_fields:
  "wrappers (snd (render w gd st)) = wrappers st"
  "isMobile (snd (render w gd st)) = (w \<le> MOBILE_BREAKPOINT)"
  "charts (snd (render w gd st)) =
     charts (snd (forIn gd (render_step w gd) (st\<lparr>isMobile := (w \<le> MOBILE_BREAKPOINT)\<rparr>)))"
  "fst (render w gd st) =
     fst (forIn gd (render_step w gd) (st\<lparr>isMobile := (w \<le> MOBILE_BREAKPOINT)\<rparr>))"
  using forIn_fields [of gd w gd "st\<lparr>isMobile := (w \<le> MOBILE_BREAKPOINT)\<rparr>"]
  by (cases "forIn gd (render_step w gd) (st\<lparr>isMobile := (w \<le> MOBILE_BREAKPOINT)\<rparr>)";
      simp add: render_eq split: option.splits)+

text \<open>
  C8. A second \<^verbatim>\<open>onResize()\<close> right after the first, with the same measured width and the
  same dataset, ends as the first did (normally, or with the same exception) and leaves
  the page as the first left it: the same wrappers, and in every chart container the
  same content, each container being cleared and redrawn rather than added to.
\<close>

theorem onResize_idempotent:
  "fst (onResize w gd (snd (onResize w gd st))) = fst (onResize w gd st) \<and>
   charts (snd (onResize w gd (snd (onResize w gd st)))) = charts (snd (onResize w gd st)) \<and>
   wrappers (snd (onResize w gd (snd (onResize w gd st)))) = wrappers (snd (onResize w gd st))"
proof -
  let ?b = "w \<le> MOBILE_BREAKPOINT"
  let ?st1 = "st\<lparr>isMobile := ?b\<rparr>"
  let ?r = "snd (render w gd st)"
  let ?r1 = "?r\<lparr>isMobile := ?b\<rparr>"
  have w: "wrappers ?r1 = wrappers ?st1" by (simp add: render_fields)
  have m: "isMobile ?r1 = isMobile ?st1" by simp
  have c: "charts ?r1 = charts (snd (forIn gd (render_step w gd) ?st1))"
    by (simp add: render_fields)
  have "fst (render w gd ?r) = fst (render w gd st)"
    by (simp only: render_fields(4) forIn_error_same [OF w m])
  moreover have "charts (snd (render w gd ?r)) = charts ?r"
    using forIn_twice [OF w m c] by (simp add: render_fields(3))
  moreover have "wrappers (snd (render w gd ?r)) = wrappers ?r"
    by (simp add: render_fields)
  ultimately show ?thesis by (simp add: onResize_def)
qed

section \<open>A pass that throws\<close>


lemma wrappers_example: "map fst (wrappers example_page) = DISPLAY_ORDER"
  by (simp add: example_page_def comp_def)

lemma example_page_charts: "charts example_page k = []"
  by (simp add: example_page_def)

lemma makeHTML_labor: "makeHTML labor_without_ticks empty_page = Inr example_page"
  by (simp add: makeHTML_def DISPLAY_ORDER_def example_data_def example_page_def empty_page_def
     example_metric_def example_wrapper_def fun_eq_iff labor_without_ticks_def no_ticks_metric_def)


lemma d3_select_example:
  "wrappers st = wrappers example_page \<Longrightarrow>
   d3_select (selector key) st = (if key \<in> set DISPLAY_ORDER then Some key else None)"
  by (simp add: d3_select_def find_selector wrappers_example)

lemma thrown_ok:
  "map_of gd key = Some d \<Longrightarrow> ticks d \<noteq> None \<Longrightarrow> key \<in> fst ` set (wrappers st) \<Longrightarrow>
   thrown (metric_config w gd key) (d3_select (selector key) st) = None"
  by (auto simp: thrown_def metric_config_def d3_select_selector)

lemma forIn_all_ok:
  "(\<And>k v. (k, v) \<in> set l \<Longrightarrow>
      k \<in> fst ` set (wrappers st) \<and> (\<exists>d. map_of gd k = Some d \<and> ticks d \<noteq> None)) \<Longrightarrow>
   fst (forIn l (render_step w gd) st) = None"
proof (induction l arbitrary: st)
  case Nil
  then show ?case by simp
next
  case (Cons a l)
  obtain key v where a: "a = (key, v)" by (cases a)
  from Cons.prems [of key v] a obtain d where
    "key \<in> fst ` set (wrappers st)" "map_of gd key = Some d" "ticks d \<noteq> None"
    by auto
  then have ok: "thrown (metric_config w gd key) (d3_select (selector key) st) = None"
    by (simp add: thrown_ok)
  have "fst (forIn l (render_step w gd)
      (set_html (d3_select (selector key) st) (drawn (isMobile st) (metric_config w gd key)) st)) =
      None"
    by (rule Cons.IH) (use Cons.prems in auto)
  then show ?case by (simp add: a step_eq [of w gd v key st] ok)
qed

lemma render_stops:
  assumes gd: "gd = before @ (key, d) # after" and dist: "distinct (map fst gd)"
    and ok: "\<forall>(k, m) \<in> set before. ticks m \<noteq> None \<and> k \<in> fst ` set (wrappers st)"
    and thr: "thrown (metric_config w gd key) (d3_select (selector key) st) = Some e"
  shows "fst (render w gd st) = Some e"
    and "resized (snd (render w gd st)) = resized st"
    and "\<And>k. k \<in> fst ` set before \<Longrightarrow>
           charts (snd (render w gd st)) k =
             drawn (w \<le> MOBILE_BREAKPOINT) (metric_config w gd k)"
    and "\<And>k. k \<notin> fst ` set before \<Longrightarrow> k \<noteq> key \<Longrightarrow>
           charts (snd (render w gd st)) k = charts st k"
    and "charts (snd (render w gd st)) key =
           (if key \<in> fst ` set (wrappers st)
            then drawn (w \<le> MOBILE_BREAKPOINT) (metric_config w gd key) else charts st key)"
proof -
  let ?st1 = "st\<lparr>isMobile := (w \<le> MOBILE_BREAKPOINT)\<rparr>"
  let ?f = "render_step w gd"
  have look: "map_of gd k = Some m" if "(k, m) \<in> set gd" for k m
    using dist that by (rule map_of_is_SomeI)
  have pre: "fst (forIn before ?f ?st1) = None"
  proof (rule forIn_all_ok)
    fix k v
    assume kv: "(k, v) \<in> set before"
    with ok have "ticks v \<noteq> None" "k \<in> fst ` set (wrappers st)" by auto
    moreover from kv gd have "(k, v) \<in> set gd" by simp
    then have "map_of gd k = Some v" by (rule look)
    ultimately show "k \<in> fst ` set (wrappers ?st1) \<and>
        (\<exists>d. map_of gd k = Some d \<and> ticks d \<noteq> None)"
      by simp
  qed
  obtain s1 where s1: "forIn before ?f ?st1 = (None, s1)"
    using pre by (cases "forIn before ?f ?st1") simp
  have f1: "wrappers s1 = wrappers st" "isMobile s1 = (w \<le> MOBILE_BREAKPOINT)"
    "resized s1 = resized st"
    using forIn_fields [of before w gd ?st1] s1 by simp_all
  have sel: "d3_select (selector key) s1 = d3_select (selector key) st"
    by (simp add: d3_select_def f1)
  let ?s2 = "set_html (d3_select (selector key) st)
    (drawn (w \<le> MOBILE_BREAKPOINT) (metric_config w gd key)) s1"
  have "forIn (before @ (key, d) # after) ?f ?st1 = (Some e, ?s2)"
    by (simp add: forIn_append s1 step_eq [of w gd d key s1] sel thr f1)
  moreover have "forIn gd ?f ?st1 = forIn (before @ (key, d) # after) ?f ?st1"
    using gd by simp
  ultimately have r: "render w gd st = (Some e, ?s2)"
    by (simp add: render_eq)
  have notin: "key \<notin> fst ` set before"
    using dist by (auto simp: gd image_iff)
  have other: "charts ?s2 k = charts s1 k" if "k \<noteq> key" for k
    using that by (auto simp: set_html_def d3_select_selector)
  show "fst (render w gd st) = Some e" by (simp add: r)
  show "resized (snd (render w gd st)) = resized st" by (simp add: r f1)
  show "charts (snd (render w gd st)) k =
      drawn (w \<le> MOBILE_BREAKPOINT) (metric_config w gd k)" if "k \<in> fst ` set before" for k
  proof -
    from that notin have ne: "k \<noteq> key" by auto
    from forIn_chart_drawn [OF pre that] s1
    have "charts s1 k = drawn (w \<le> MOBILE_BREAKPOINT) (metric_config w gd k)" by simp
    with ne show ?thesis by (simp add: r other)
  qed
  show "charts (snd (render w gd st)) k = charts st k"
    if "k \<notin> fst ` set before" and "k \<noteq> key" for k
  proof -
    from forIn_charts_outside [OF that(1), of w gd ?st1] s1
    have "charts s1 k = charts st k" by simp
    with that(2) show ?thesis by (simp add: r other)
  qed
  have "charts s1 key = charts st key"
    using forIn_charts_outside [OF notin, of w gd ?st1] s1 by simp
  then show "charts (snd (render w gd st)) key =
      (if key \<in> fst ` set (wrappers st)
       then drawn (w \<le> MOBILE_BREAKPOINT) (metric_config w gd key) else charts st key)"
    by (simp add: r set_html_def d3_select_selector)
qed

lemma own_chart:
  "k \<in> fst ` set (wrappers st) \<Longrightarrow>
   charts (snd (renderGraphic (metric_config w gd k) st)) k =
     drawn (isMobile st) (metric_config w gd k)"
  by (simp add: renderGraphic_eq d3_select_selector set_html_def)

text \<open>
  C6, as the claim states it, fails: with the third metric lacking its ticks, the pass
  ends with that metric's TypeError, and the charts of the metrics after it, all well
  formed, are not drawn; the parent frame is not told either.
\<close>

theorem failure_not_isolated:
  "makeHTML labor_without_ticks empty_page = Inr example_page \<and>
   map_option ticks (map_of labor_without_ticks ''labor'') = Some None \<and>
   map_option ticks (map_of labor_without_ticks ''poverty'') = Some (Some [- 4, - 2, 0, 2, 4]) \<and>
   fst (render 940 labor_without_ticks example_page) = Some (TypeError ''length'') \<and>
   charts (snd (render 940 labor_without_ticks example_page)) ''poverty'' = [] \<and>
   charts (snd (render 940 labor_without_ticks example_page)) ''debt'' = [] \<and>
   resized (snd (render 940 labor_without_ticks example_page)) = 0"
proof -
  have l: "labor_without_ticks =
      [(''gdp'', example_metric), (''unemployment'', example_metric), (''labor'', no_ticks_metric),
       (''poverty'', example_metric), (''trade'', example_metric), (''stocks'', example_metric),
       (''wages'', example_metric), (''budget'', example_metric), (''debt'', example_metric)]"
    by (simp add: labor_without_ticks_def example_data_def DISPLAY_ORDER_def)
  have t: "ticks example_metric = Some [- 4, - 2, 0, 2, 4]" "ticks no_ticks_metric = None"
    by (simp_all add: example_metric_def no_ticks_metric_def)
  have r: "forIn labor_without_ticks (render_step 940 labor_without_ticks)
             (example_page\<lparr>isMobile := (940 \<le> MOBILE_BREAKPOINT)\<rparr>) =
           (Some (TypeError ''length''),
            example_page\<lparr>isMobile := False,
              charts := (charts example_page)
                (''gdp'' := drawn False (metric_config 940 labor_without_ticks ''gdp''),
                 ''unemployment'' := drawn False (metric_config 940 labor_without_ticks ''unemployment''),
                 ''labor'' := drawn False (metric_config 940 labor_without_ticks ''labor''))\<rparr>)"
    by (simp add: step_eq d3_select_example set_html_def MOBILE_BREAKPOINT_def thrown_def t
        DISPLAY_ORDER_def)
       (simp add: l metric_config_def thrown_def t step_eq d3_select_example set_html_def
        DISPLAY_ORDER_def)
  show ?thesis
    by (simp add: makeHTML_labor render_eq r example_page_charts)
       (simp add: l t example_page_def)
qed

text \<open>
  C6, amended. Nothing catches an exception of a call. When a metric without ticks has
  its container, and the metrics enumerated before it are well formed and have theirs,
  the pass ends with the TypeError of that metric: the charts of the metrics before it
  are drawn, each as its own call draws it, the chart of the metric itself is left as
  its call leaves it at the throw, the charts of the metrics after it are left as they
  were, and \<^verbatim>\<open>fm.resize()\<close> is not called.
\<close>

theorem render_stops_at_first_throw:
  assumes "gd = before @ (key, d) # after" and "distinct (map fst gd)" and "ticks d = None"
    and "\<forall>(k, m) \<in> set before. ticks m \<noteq> None \<and> k \<in> fst ` set (wrappers st)"
    and "key \<in> fst ` set (wrappers st)"
  shows "fst (render w gd st) = Some (TypeError ''length'') \<and>
         (\<forall>k \<in> fst ` set after. charts (snd (render w gd st)) k = charts st k) \<and>
         (\<forall>k \<in> fst ` set before \<union> {key}.
            charts (snd (render w gd st)) k =
              charts (snd (renderGraphic (metric_config w gd k)
                             (st\<lparr>isMobile := (w \<le> MOBILE_BREAKPOINT)\<rparr>))) k) \<and>
         resized (snd (render w gd st)) = resized st"
proof -
  let ?st1 = "st\<lparr>isMobile := (w \<le> MOBILE_BREAKPOINT)\<rparr>"
  have "(key, d) \<in> set gd" using assms(1) by simp
  with assms(2) have d: "map_of gd key = Some d" by (rule map_of_is_SomeI)
  have thr: "thrown (metric_config w gd key) (d3_select (selector key) st) =
      Some (TypeError ''length'')"
    using d assms(3) by (simp add: thrown_def metric_config_def)
  note R = render_stops [OF assms(1,2,4) thr]
  have keys: "key \<notin> fst ` set after" "fst ` set before \<inter> fst ` set after = {}"
    using assms(2) by (auto simp: assms(1) image_iff)
  have aft: "charts (snd (render w gd st)) k = charts st k" if "k \<in> fst ` set after" for k
    using that keys by (intro R(4)) auto
  have own: "charts (snd (renderGraphic (metric_config w gd k) ?st1)) k =
      drawn (w \<le> MOBILE_BREAKPOINT) (metric_config w gd k)"
    if "k \<in> fst ` set (wrappers st)" for k
    using own_chart [of k ?st1 w gd] that by simp
  have bef: "charts (snd (render w gd st)) k =
      charts (snd (renderGraphic (metric_config w gd k) ?st1)) k"
    if "k \<in> fst ` set before" for k
  proof -
    from that assms(4) have "k \<in> fst ` set (wrappers st)" by auto
    then show ?thesis by (simp add: own R(3) [OF that])
  qed
  have atk: "charts (snd (render w gd st)) key =
      charts (snd (renderGraphic (metric_config w gd key) ?st1)) key"
    using assms(5) by (simp add: R(5) own)
  show ?thesis
    using R(1,2) aft bef atk by simp
qed

theorem render_stops_at_first_throw_witness:
  "labor_without_ticks =
     take 2 example_data @ (''labor'', no_ticks_metric) # drop 3 example_data \<and>
   distinct (map fst labor_without_ticks) \<and> ticks no_ticks_metric = None \<and>
   list_all (\<lambda>(k, m). ticks m \<noteq> None \<and> k \<in> fst ` set (wrappers example_page))
     (take 2 example_data) \<and>
   ''labor'' \<in> fst ` set (wrappers example_page) \<and>
   fst (render 940 labor_without_ticks example_page) = Some (TypeError ''length'') \<and>
   list_all (\<lambda>k. charts (snd (render 940 labor_without_ticks example_page)) k = [])
     [''poverty'', ''trade'', ''stocks'', ''wages'', ''budget'', ''debt''] \<and>
   list_all (\<lambda>k. charts (snd (render 940 labor_without_ticks example_page)) k =
       charts (snd (renderGraphic (metric_config 940 labor_without_ticks k)
                      (example_page\<lparr>isMobile := False\<rparr>))) k)
     [''gdp'', ''unemployment'', ''labor''] \<and>
   resized (snd (render 940 labor_without_ticks example_page)) = 0"
proof -
  have h1: "labor_without_ticks =
     take 2 example_data @ (''labor'', no_ticks_metric) # drop 3 example_data"
    by (simp add: labor_without_ticks_def)
  have h2: "distinct (map fst labor_without_ticks)"
    by (simp add: labor_without_ticks_def example_data_def DISPLAY_ORDER_def)
  have h3: "ticks no_ticks_metric = None" by (simp add: no_ticks_metric_def)
  have h4: "\<forall>(k, m) \<in> set (take 2 example_data).
      ticks m \<noteq> None \<and> k \<in> fst ` set (wrappers example_page)"
    by (simp add: example_data_def DISPLAY_ORDER_def example_metric_def example_page_def)
  have h5: "''labor'' \<in> fst ` set (wrappers example_page)"
    by (simp add: example_page_def DISPLAY_ORDER_def)
  note T = render_stops_at_first_throw [OF h1 h2 h3 h4 h5, of 940]
  have a: "fst ` set (drop 3 example_data) =
      {''poverty'', ''trade'', ''stocks'', ''wages'', ''budget'', ''debt''}"
    by (simp add: example_data_def DISPLAY_ORDER_def)
  have b: "fst ` set (take 2 example_data) = {''gdp'', ''unemployment''}"
    by (simp add: example_data_def DISPLAY_ORDER_def)
  from T show ?thesis
    by (simp add: h1 [symmetric] h2 h3 h5 a b example_page_charts MOBILE_BREAKPOINT_def)
       (simp add: example_data_def DISPLAY_ORDER_def example_metric_def example_page_def)
qed

section \<open>The order of a pass\<close>










end
